theory Spec2Isabelle
  imports Complex_Main
begin

section \<open>The retry and polling utilities of utils/retry.py\<close>

text \<open>
  The module offers a retry decorator and four polling primitives. All of them call
  caller-supplied callables, read a monotonic clock and suspend. The embedding makes
  these effects explicit: every function takes a world and returns the outcome together
  with the world it leaves behind.

  Durations and clock readings are Python floats in the source. In \<open>retry\<close>, \<open>wait_until\<close>,
  \<open>poll_until\<close> and the asynchronous variants below they are exact real numbers and only
  the suspensions advance the clock, which is all that the statements about invocations,
  results and exceptions need. What is stated about the durations of the suspensions, the
  deadline and the number of evaluations is stated about \<open>retry_with\<close> and
  \<open>wait_until_on\<close>: the same two source functions, with the float operations, the longest
  duration \<^verbatim>\<open>time.sleep\<close> accepts and the readings of the clock as parameters. A call to \<^verbatim>\<open>logger.warning\<close> has no effect
  that the caller can observe and is left out; the wrapped function is taken to have the
  \<^verbatim>\<open>__name__\<close> that the log line reads.
\<close>

subsection \<open>Exceptions\<close>

text \<open>
  The two f-strings that build the text of a \<^verbatim>\<open>TimeoutError\<close> are kept as their parts:
  \<^verbatim>\<open>f"{message} after {timeout}s"\<close> is \<open>After message timeout\<close>, and
  \<^verbatim>\<open>f"{message} after {timeout}s. Last result: {last_result}"\<close> is
  \<open>AfterLast message timeout last_result\<close>, where \<open>last_result\<close> is \<open>None\<close> as long as the
  variable still holds its initial Python \<^verbatim>\<open>None\<close>.
\<close>

datatype 'v timeout_message =
    After string real
  | AfterLast string real "'v option"

text \<open>
  \<open>Fault x\<close> is an exception of the caller's own; \<open>ValueError\<close> is what \<^verbatim>\<open>time.sleep\<close>
  raises for a negative duration; \<open>TypeError\<close> is what \<^verbatim>\<open>raise None\<close> raises;
  \<open>OverflowError\<close> is what \<^verbatim>\<open>time.sleep\<close> raises for a duration too long for the platform's
  timestamps.
\<close>

datatype ('x, 'v) exn =
    Fault 'x
  | ValueError
  | TypeError
  | OverflowError
  | TimeoutError "'v timeout_message"

subsection \<open>The world\<close>

text \<open>
  \<open>now\<close> is the reading of the monotonic clock (\<^verbatim>\<open>time.monotonic()\<close>, or the event loop's
  \<^verbatim>\<open>time()\<close>); only a suspension advances it. \<open>slept\<close> lists the durations of the
  suspensions performed so far, \<open>observed\<close> the arguments of the \<^verbatim>\<open>on_retry\<close> invocations
  so far, and \<open>calls\<close> counts the invocations of the caller-supplied operation (the wrapped
  function, the condition of \<^verbatim>\<open>wait_until\<close>, the producer of \<^verbatim>\<open>poll_until\<close>).
\<close>

record ('x, 'v) world =
  now :: real
  slept :: "real list"
  observed :: "(('x, 'v) exn \<times> int) list"
  calls :: nat

type_synonym ('x, 'v, 'a) outcome = "(('x, 'v) exn + 'a) \<times> ('x, 'v) world"

text \<open>
  A caller-supplied operation is a script: its outcome at its \<open>n\<close>-th invocation (counted
  from 0) is \<open>f n\<close>, either an exception (\<open>Inl\<close>) or a returned value (\<open>Inr\<close>).
\<close>

definition call :: "(nat \<Rightarrow> ('x, 'v) exn + 'a) \<Rightarrow> ('x, 'v) world \<Rightarrow> ('x, 'v, 'a) outcome" where
  "call f w = (f (calls w), w\<lparr>calls := Suc (calls w)\<rparr>)"

text \<open>\<^verbatim>\<open>time.sleep(d)\<close>: a negative duration raises \<^verbatim>\<open>ValueError\<close> and suspends nothing.\<close>

definition sleep :: "real \<Rightarrow> ('x, 'v) world \<Rightarrow> ('x, 'v, unit) outcome" where
  "sleep d w =
     (if d < 0 then (Inl ValueError, w)
      else (Inr (), w\<lparr>now := now w + d, slept := slept w @ [d]\<rparr>))"

subsection \<open>retry\<close>

text \<open>
  \<^verbatim>\<open>if on_retry: on_retry(exc, attempt)\<close>. The callback is \<open>None\<close> or a function that
  returns normally (\<open>None\<close>) or raises (\<open>Some x\<close>); an exception it raises leaves the
  wrapper, since the call stands in the handler and not in the \<^verbatim>\<open>try\<close> block.
\<close>

definition notify ::
  "(('x, 'v) exn \<Rightarrow> int \<Rightarrow> ('x, 'v) exn option) option \<Rightarrow> ('x, 'v) exn \<Rightarrow> int \<Rightarrow>
   ('x, 'v) world \<Rightarrow> ('x, 'v, unit) outcome" where
  "notify on_retry exc attempt w =
     (case on_retry of
        None \<Rightarrow> (Inr (), w)
      | Some cb \<Rightarrow>
          (case cb exc attempt of None \<Rightarrow> Inr () | Some x \<Rightarrow> Inl x,
           w\<lparr>observed := observed w @ [(exc, attempt)]\<rparr>))"

text \<open>\<^verbatim>\<open>raise last_exc\<close>: raising \<^verbatim>\<open>None\<close> is a \<^verbatim>\<open>TypeError\<close>.\<close>

definition raise_last :: "('x, 'v) exn option \<Rightarrow> ('x, 'v) world \<Rightarrow> ('x, 'v, 'a) outcome" where
  "raise_last last_exc w = (case last_exc of None \<Rightarrow> (Inl TypeError, w) | Some e \<Rightarrow> (Inl e, w))"

text \<open>
  The \<^verbatim>\<open>for attempt in range(1, times + 1)\<close> loop of \<^verbatim>\<open>wrapper\<close>, entered at \<open>attempt\<close>
  with the loop variables \<open>current_delay\<close> and \<open>last_exc\<close>; \<open>times'\<close> is the
  parameter \<^verbatim>\<open>times\<close>. \<open>exceptions\<close> decides whether
  an exception is an instance of one of the configured types. Falling out of the range
  and the \<^verbatim>\<open>break\<close> at the last attempt both reach \<^verbatim>\<open>raise last_exc\<close>.
\<close>

function retry_loop ::
  "int \<Rightarrow> real \<Rightarrow> (('x, 'v) exn \<Rightarrow> bool) \<Rightarrow>
   (('x, 'v) exn \<Rightarrow> int \<Rightarrow> ('x, 'v) exn option) option \<Rightarrow>
   (nat \<Rightarrow> ('x, 'v) exn + 'a) \<Rightarrow> int \<Rightarrow> real \<Rightarrow> ('x, 'v) exn option \<Rightarrow>
   ('x, 'v) world \<Rightarrow> ('x, 'v, 'a) outcome" where
  "retry_loop times' backoff exceptions on_retry func attempt current_delay last_exc w =
     (if times' < attempt then raise_last last_exc w
      else
        (case call func w of
           (Inr v, w1) \<Rightarrow> (Inr v, w1)
         | (Inl exc, w1) \<Rightarrow>
             if \<not> exceptions exc then (Inl exc, w1)
             else if attempt = times' then raise_last (Some exc) w1
             else
               (case notify on_retry exc attempt w1 of
                  (Inl x, w2) \<Rightarrow> (Inl x, w2)
                | (Inr _, w2) \<Rightarrow>
                    (case sleep current_delay w2 of
                       (Inl x, w3) \<Rightarrow> (Inl x, w3)
                     | (Inr _, w3) \<Rightarrow>
                         retry_loop times' backoff exceptions on_retry func (attempt + 1)
                           (current_delay * backoff) (Some exc) w3))))"
  by pat_completeness auto
termination
  by (relation "measure (\<lambda>(n, _, _, _, _, attempt, _). nat (n + 1 - attempt))") auto

declare retry_loop.simps [simp del]

definition retry ::
  "int \<Rightarrow> real \<Rightarrow> real \<Rightarrow> (('x, 'v) exn \<Rightarrow> bool) \<Rightarrow>
   (('x, 'v) exn \<Rightarrow> int \<Rightarrow> ('x, 'v) exn option) option \<Rightarrow>
   (nat \<Rightarrow> ('x, 'v) exn + 'a) \<Rightarrow> ('x, 'v) world \<Rightarrow> ('x, 'v, 'a) outcome" where
  "retry times' delay backoff exceptions on_retry func w =
     retry_loop times' backoff exceptions on_retry func 1 delay None w"




subsection \<open>wait_until and poll_until\<close>





subsection \<open>async_wait_until and async_poll_until\<close>








subsection \<open>The machine's numbers and clock\<close>

text \<open>
  A Python float is an IEEE 754 binary64 number. \<open>binary64 x\<close> rounds a real number to the
  nearest number with a significand of 53 bits, a tie to the one with the even
  significand: \<open>normalise\<close> scales \<open>\<bar>x\<bar>\<close> by powers of two into the range from \<open>2^52\<close> up to
  \<open>2^53\<close> (its fuel covers every exponent of binary64), and \<open>rne\<close> rounds the scaled number
  to an integer. The exponent is not bounded, so overflow to infinity and subnormal
  numbers are not modelled. \<open>float_mul\<close> and \<open>float_add\<close> are the product and the sum of
  two floats.
\<close>

definition rne :: "real \<Rightarrow> int" where
  "rne s =
     (let n = \<lfloor>s\<rfloor> in
      if s - of_int n < 1 / 2 then n
      else if 1 / 2 < s - of_int n then n + 1
      else if even n then n else n + 1)"

primrec normalise :: "nat \<Rightarrow> real \<Rightarrow> int \<Rightarrow> real \<times> int" where
  "normalise 0 s e = (s, e)"
| "normalise (Suc fuel) s e =
     (if s < 4503599627370496 then normalise fuel (2 * s) (e - 1)
      else if 9007199254740992 \<le> s then normalise fuel (s / 2) (e + 1)
      else (s, e))"

definition pow2 :: "int \<Rightarrow> real" where
  "pow2 e = (if 0 \<le> e then 2 ^ nat e else 1 / 2 ^ nat (- e))"

definition binary64 :: "real \<Rightarrow> real" where
  "binary64 x =
     (if x = 0 then 0
      else (case normalise 2200 \<bar>x\<bar> 0 of (s, e) \<Rightarrow> sgn x * of_int (rne s) * pow2 e))"

definition float_mul :: "real \<Rightarrow> real \<Rightarrow> real" where
  "float_mul x y = binary64 (x * y)"

definition float_add :: "real \<Rightarrow> real \<Rightarrow> real" where
  "float_add x y = binary64 (x + y)"

text \<open>
  \<^verbatim>\<open>time.sleep(d)\<close> with both of its errors: a negative duration raises \<^verbatim>\<open>ValueError\<close>, one
  beyond \<open>sleep_max\<close>, the longest duration that fits the platform's timestamps, raises
  \<^verbatim>\<open>OverflowError\<close>. The suspension is recorded; the clock is read from the time module
  below and not advanced here.
\<close>

definition time_sleep :: "real \<Rightarrow> real \<Rightarrow> ('x, 'v) world \<Rightarrow> ('x, 'v, unit) outcome" where
  "time_sleep sleep_max d w =
     (if d < 0 then (Inl ValueError, w)
      else if sleep_max < d then (Inl OverflowError, w)
      else (Inr (), w\<lparr>slept := slept w @ [d]\<rparr>))"

text \<open>
  The loop of \<^verbatim>\<open>wrapper\<close> again, with \<open>mul\<close> for the product in
  \<^verbatim>\<open>current_delay *= backoff\<close> and \<open>time_sleep\<close> for \<^verbatim>\<open>time.sleep\<close>.
\<close>

function retry_loop_with ::
  "(real \<Rightarrow> real \<Rightarrow> real) \<Rightarrow> real \<Rightarrow> int \<Rightarrow> real \<Rightarrow> (('x, 'v) exn \<Rightarrow> bool) \<Rightarrow>
   (('x, 'v) exn \<Rightarrow> int \<Rightarrow> ('x, 'v) exn option) option \<Rightarrow>
   (nat \<Rightarrow> ('x, 'v) exn + 'a) \<Rightarrow> int \<Rightarrow> real \<Rightarrow> ('x, 'v) exn option \<Rightarrow>
   ('x, 'v) world \<Rightarrow> ('x, 'v, 'a) outcome" where
  "retry_loop_with mul sleep_max times' backoff exceptions on_retry func attempt current_delay
     last_exc w =
     (if times' < attempt then raise_last last_exc w
      else
        (case call func w of
           (Inr v, w1) \<Rightarrow> (Inr v, w1)
         | (Inl exc, w1) \<Rightarrow>
             if \<not> exceptions exc then (Inl exc, w1)
             else if attempt = times' then raise_last (Some exc) w1
             else
               (case notify on_retry exc attempt w1 of
                  (Inl x, w2) \<Rightarrow> (Inl x, w2)
                | (Inr _, w2) \<Rightarrow>
                    (case time_sleep sleep_max current_delay w2 of
                       (Inl x, w3) \<Rightarrow> (Inl x, w3)
                     | (Inr _, w3) \<Rightarrow>
                         retry_loop_with mul sleep_max times' backoff exceptions on_retry func
                           (attempt + 1) (mul current_delay backoff) (Some exc) w3))))"
  by pat_completeness auto
termination
  by (relation "measure (\<lambda>(_, _, n, _, _, _, _, attempt, _). nat (n + 1 - attempt))") auto

declare retry_loop_with.simps [simp del]

definition retry_with ::
  "(real \<Rightarrow> real \<Rightarrow> real) \<Rightarrow> real \<Rightarrow> int \<Rightarrow> real \<Rightarrow> real \<Rightarrow> (('x, 'v) exn \<Rightarrow> bool) \<Rightarrow>
   (('x, 'v) exn \<Rightarrow> int \<Rightarrow> ('x, 'v) exn option) option \<Rightarrow>
   (nat \<Rightarrow> ('x, 'v) exn + 'a) \<Rightarrow> ('x, 'v) world \<Rightarrow> ('x, 'v, 'a) outcome" where
  "retry_with mul sleep_max times' delay backoff exceptions on_retry func w =
     retry_loop_with mul sleep_max times' backoff exceptions on_retry func 1 delay None w"

text \<open>
  The clocks of Python's \<^verbatim>\<open>time\<close> module, as the call finds them: \<open>monotonic tm k\<close> is what
  the call's \<open>k\<close>-th reading of \<^verbatim>\<open>time.monotonic()\<close> returns, counted from 0, and
  \<open>wallclock tm k\<close> what a \<open>k\<close>-th reading of \<^verbatim>\<open>time.time()\<close> would return. The loop of
  \<^verbatim>\<open>wait_until\<close> takes reading \<open>k\<close> at its test and keeps it in \<open>now\<close>; the deadline is the
  sum \<open>add\<close> of reading 0 and the timeout.
\<close>

record time_module =
  monotonic :: "nat \<Rightarrow> real"
  wallclock :: "nat \<Rightarrow> real"

partial_function (option) wait_loop_on ::
  "time_module \<Rightarrow> real \<Rightarrow> (nat \<Rightarrow> ('x, 'v) exn + bool) \<Rightarrow> real \<Rightarrow> real \<Rightarrow> string \<Rightarrow> real \<Rightarrow>
   nat \<Rightarrow> ('x, 'v) world \<Rightarrow> ('x, 'v, unit) outcome option" where
  "wait_loop_on tm sleep_max condition timeout interval message deadline k w =
     (if monotonic tm k < deadline then
        (case call condition (w\<lparr>now := monotonic tm k\<rparr>) of
           (Inl x, w1) \<Rightarrow> Some (Inl x, w1)
         | (Inr b, w1) \<Rightarrow>
             if b then Some (Inr (), w1)
             else
               (case time_sleep sleep_max interval w1 of
                  (Inl x, w2) \<Rightarrow> Some (Inl x, w2)
                | (Inr _, w2) \<Rightarrow>
                    wait_loop_on tm sleep_max condition timeout interval message deadline
                      (Suc k) w2))
      else Some (Inl (TimeoutError (After message timeout)), w\<lparr>now := monotonic tm k\<rparr>))"

definition wait_until_on ::
  "time_module \<Rightarrow> (real \<Rightarrow> real \<Rightarrow> real) \<Rightarrow> real \<Rightarrow> (nat \<Rightarrow> ('x, 'v) exn + bool) \<Rightarrow> real \<Rightarrow>
   real \<Rightarrow> string \<Rightarrow> ('x, 'v) world \<Rightarrow> ('x, 'v, unit) outcome option" where
  "wait_until_on tm add sleep_max condition timeout interval message w =
     wait_loop_on tm sleep_max condition timeout interval message
       (add (monotonic tm 0) timeout) 1 w"

subsection \<open>A world to start from\<close>

definition fresh :: "(unit, int) world" where
  "fresh = \<lparr>now = 0, slept = [], observed = [], calls = 0\<rparr>"




text \<open>Sample callables for the concrete runs below.\<close>

definition catch_all :: "(unit, int) exn \<Rightarrow> bool" where
  "catch_all e = True"

definition catch_none :: "(unit, int) exn \<Rightarrow> bool" where
  "catch_none e = False"

definition quiet_observer :: "((unit, int) exn \<Rightarrow> int \<Rightarrow> (unit, int) exn option) option" where
  "quiet_observer = Some (\<lambda>exc attempt. None)"

definition failing_first :: "nat \<Rightarrow> int \<Rightarrow> nat \<Rightarrow> (unit, int) exn + int" where
  "failing_first m v i = (if i < m then Inl (Fault ()) else Inr v)"

definition always_failing :: "nat \<Rightarrow> (unit, int) exn + int" where
  "always_failing i = Inl (Fault ())"

definition never_true :: "nat \<Rightarrow> (unit, int) exn + bool" where
  "never_true i = Inr False"








text \<open>
  A clock that reads \<open>t0\<close> at the start of the call and at the first test and is \<open>step\<close>
  further at each later test; the longest sleep of CPython, whose timestamps are 64-bit
  counts of nanoseconds; the float nearest to 0.1.
\<close>

definition steady_clock :: "real \<Rightarrow> real \<Rightarrow> time_module" where
  "steady_clock t0 step =
     \<lparr>monotonic = (\<lambda>k. t0 + real (k - 1) * step), wallclock = (\<lambda>k. t0 + real (k - 1) * step)\<rparr>"

definition cpython_sleep_max :: real where
  "cpython_sleep_max = 9223372036854775807 / 1000000000"

definition tenth :: real where
  "tenth = 3602879701896397 / 36028797018963968"

section \<open>Properties of retry\<close>

subsection \<open>Unrolling the loop\<close>








subsection \<open>The claims about retry\<close>





text \<open>
  C3. With \<open>times > 1\<close>, let the operation raise at attempt 1 an exception \<open>e\<close> that the
  configured types do not cover. Then the wrapper raises \<open>e\<close>, and the world is the one
  it started in but for the one invocation of the operation: no observer invocation,
  no suspension, no further attempt.
\<close>

theorem retry_propagates_non_retryable:
  assumes "1 < times'" and "func (calls w) = Inl e" and "\<not> exceptions e"
  shows "retry times' delay backoff exceptions on_retry func w =
         (Inl e, w\<lparr>calls := Suc (calls w)\<rparr>)"
  unfolding retry_def using assms by (subst retry_loop.simps) (simp add: call_def)

theorem retry_propagates_non_retryable_witness:
  "always_failing (calls fresh) = Inl (Fault ()) \<and> \<not> catch_none (Fault ()) \<and>
   retry 3 1 2 catch_none quiet_observer always_failing fresh =
     (Inl (Fault ()), \<lparr>now = 0, slept = [], observed = [], calls = 1\<rparr>)"
  using retry_propagates_non_retryable
    [of 3 always_failing fresh "Fault ()" catch_none 1 2 quiet_observer]
  by (simp add: always_failing_def catch_none_def fresh_def)

text \<open>
  C10. With \<open>times \<le> 0\<close> the range of the loop is empty: the operation is not invoked (the
  world is unchanged), and the final \<^verbatim>\<open>raise last_exc\<close> runs with \<open>last_exc\<close> still \<open>None\<close>,
  which is a \<^verbatim>\<open>TypeError\<close>.
\<close>

theorem retry_without_attempts:
  assumes "times' \<le> 0"
  shows "retry times' delay backoff exceptions on_retry func w = raise_last None w \<and>
         raise_last None w = (Inl TypeError, w)"
  unfolding retry_def using assms by (subst retry_loop.simps) (simp add: raise_last_def)

theorem retry_without_attempts_witness:
  "retry 0 1 2 catch_all quiet_observer (failing_first 0 5) fresh = (Inl TypeError, fresh)"
  using retry_without_attempts [of 0 1 2 catch_all quiet_observer "failing_first 0 5" fresh]
  by (simp add: raise_last_def)

section \<open>Properties of the polling primitives\<close>

subsection \<open>Unrolling the loops\<close>





















subsection \<open>The claims about the polling primitives\<close>








section \<open>Properties on the machine's numbers and clock\<close>

subsection \<open>Evaluating floats\<close>

lemma normalise_numeral:
  "normalise (numeral k) s e =
     (if s < 4503599627370496 then normalise (pred_numeral k) (2 * s) (e - 1)
      else if 9007199254740992 \<le> s then normalise (pred_numeral k) (s / 2) (e + 1)
      else (s, e))"
  by (simp add: numeral_eq_Suc)

lemmas float_eval = float_mul_def float_add_def binary64_def normalise_numeral rne_def pow2_def

subsection \<open>The durations of the suspensions of retry\<close>

lemma funpow_mul_shift:
  "((\<lambda>x. mul x f) ^^ i) (mul c f) = mul (((\<lambda>x. mul x f) ^^ i) c) f"
  by (induction i) simp_all

lemma retry_loop_with_slept:
  "\<exists>m. slept (snd (retry_loop_with mul sleep_max n f exceptions on_retry func attempt c last_exc w)) =
        slept w @ map (\<lambda>i. ((\<lambda>x. mul x f) ^^ i) c) [0..<m]"
proof (induction "nat (n + 1 - attempt)" arbitrary: attempt c last_exc w)
  case 0
  then have "n < attempt" by simp
  then have "slept (snd (retry_loop_with mul sleep_max n f exceptions on_retry func attempt c last_exc w)) =
      slept w @ map (\<lambda>i. ((\<lambda>x. mul x f) ^^ i) c) [0..<0]"
    by (subst retry_loop_with.simps) (simp add: raise_last_def split: option.splits)
  then show ?case by blast
next
  case (Suc k)
  then have le: "\<not> n < attempt" and k: "k = nat (n + 1 - (attempt + 1))" by auto
  let ?R = "retry_loop_with mul sleep_max n f exceptions on_retry func attempt c last_exc w"
  have none: "slept (snd ?R) = slept w \<Longrightarrow> ?case"
  proof -
    assume "slept (snd ?R) = slept w"
    then have "slept (snd ?R) = slept w @ map (\<lambda>i. ((\<lambda>x. mul x f) ^^ i) c) [0..<0]" by simp
    then show ?case by blast
  qed
  show ?case
  proof (cases "func (calls w)")
    case (Inr v)
    then have "slept (snd ?R) = slept w"
      using le by (subst retry_loop_with.simps) (simp add: call_def)
    then show ?thesis by (rule none)
  next
    case (Inl exc)
    let ?w1 = "w\<lparr>calls := Suc (calls w)\<rparr>"
    obtain r2 w2 where n2: "notify on_retry exc attempt ?w1 = (r2, w2)" by force
    then have s2: "slept w2 = slept w" by (auto simp: notify_def split: option.splits)
    obtain r3 w3 where n3: "time_sleep sleep_max c w2 = (r3, w3)" by force
    show ?thesis
    proof (cases "exceptions exc \<and> attempt \<noteq> n \<and> (\<exists>u. r2 = Inr u) \<and> (\<exists>u. r3 = Inr u)")
      case False
      have "slept w3 = slept w \<or> (\<exists>u. r3 = Inr u)"
        using n3 s2 by (auto simp: time_sleep_def split: if_splits)
      then have "slept (snd ?R) = slept w"
        using False le Inl n2 n3 s2
        by (subst retry_loop_with.simps)
           (auto simp: call_def raise_last_def split: sum.splits)
      then show ?thesis by (rule none)
    next
      case True
      then have w3: "slept w3 = slept w @ [c]"
        using n3 s2 by (auto simp: time_sleep_def split: if_splits)
      from Suc.hyps(1) [OF k, of "mul c f" "Some exc" w3] obtain m where
        m: "slept (snd (retry_loop_with mul sleep_max n f exceptions on_retry func (attempt + 1)
              (mul c f) (Some exc) w3)) =
            slept w3 @ map (\<lambda>i. ((\<lambda>x. mul x f) ^^ i) (mul c f)) [0..<m]"
        by blast
      have "?R = retry_loop_with mul sleep_max n f exceptions on_retry func (attempt + 1)
              (mul c f) (Some exc) w3"
        using True le Inl n2 n3
        by (subst retry_loop_with.simps) (auto simp: call_def)
      then have "slept (snd ?R) = slept w @ map (\<lambda>i. ((\<lambda>x. mul x f) ^^ i) c) [0..<Suc m]"
        using m w3 by (simp add: map_upt_Suc funpow_mul_shift del: upt_Suc)
      then show ?thesis by blast
    qed
  qed
qed

lemma exact_products:
  fixes d f :: real
  assumes "\<forall>i<k. mul (d * f ^ i) f = d * f ^ i * f"
  shows "((\<lambda>x. mul x f) ^^ k) d = d * f ^ k"
  using assms by (induction k) (simp_all add: mult.assoc mult.commute)

text \<open>
  C4, as the code has it. Whenever the wrapper performs a \<open>j\<close>-th suspension, that
  suspension lasts \<open>d\<close> multiplied \<open>j - 1\<close> times by \<open>f\<close> with the machine's product, each
  product rounded before the next: \<open>d\<close>, \<open>mul d f\<close>, \<open>mul (mul d f) f\<close> and so on. That is
  \<open>d * f ^ (j - 1)\<close> when these \<open>j - 1\<close> products are exact.
\<close>

theorem retry_with_jth_suspension:
  assumes "1 \<le> j"
    and "length (slept w) + j \<le>
         length (slept (snd (retry_with mul sleep_max times' d f exceptions on_retry func w)))"
  shows "slept (snd (retry_with mul sleep_max times' d f exceptions on_retry func w)) !
           (length (slept w) + (j - 1)) = ((\<lambda>x. mul x f) ^^ (j - 1)) d \<and>
         ((\<forall>i<j - 1. mul (d * f ^ i) f = d * f ^ i * f) \<longrightarrow>
            ((\<lambda>x. mul x f) ^^ (j - 1)) d = d * f ^ (j - 1))"
proof
  obtain m where m: "slept (snd (retry_with mul sleep_max times' d f exceptions on_retry func w)) =
      slept w @ map (\<lambda>i. ((\<lambda>x. mul x f) ^^ i) d) [0..<m]"
    unfolding retry_with_def using retry_loop_with_slept by blast
  with assms have "j - 1 < m" by simp
  then show "slept (snd (retry_with mul sleep_max times' d f exceptions on_retry func w)) !
           (length (slept w) + (j - 1)) = ((\<lambda>x. mul x f) ^^ (j - 1)) d"
    unfolding m by (simp add: nth_append)
  show "(\<forall>i<j - 1. mul (d * f ^ i) f = d * f ^ i * f) \<longrightarrow>
            ((\<lambda>x. mul x f) ^^ (j - 1)) d = d * f ^ (j - 1)"
    using exact_products by blast
qed

lemmas retry_with_eval = retry_with_def retry_loop_with.simps call_def notify_def time_sleep_def
  raise_last_def

text \<open>
  The run with \<open>d = 1\<close>, \<open>f = 2\<close>, \<open>times = 4\<close>, float products and every attempt failing:
  the suspensions are 1, 2, 4.
\<close>

theorem retry_with_jth_suspension_witness:
  "slept (snd (retry_with float_mul cpython_sleep_max 4 1 2 catch_all None always_failing fresh)) =
     [1, 2, 4] \<and>
   slept (snd (retry_with float_mul cpython_sleep_max 4 1 2 catch_all None always_failing fresh)) ! 2 =
     1 * 2 ^ 2"
  using retry_with_jth_suspension
    [of 3 fresh float_mul cpython_sleep_max 4 1 2 catch_all None always_failing]
  by (simp add: retry_with_eval float_eval always_failing_def catch_all_def fresh_def
      cpython_sleep_max_def)

text \<open>
  C4 as stated fails where a product is rounded. With \<open>d\<close> the float 0.1, \<open>f = 3\<close> and every
  attempt failing, the third suspension lasts \<open>8106479329266894 / 2^53\<close> (0.9000000000000001),
  which is neither the real number \<open>d * 3^2\<close> nor its float (0.9).
\<close>

theorem retry_with_jth_suspension_counterexample:
  "slept (snd (retry_with float_mul cpython_sleep_max 4 tenth 3 catch_all None always_failing fresh)) =
     [tenth, 1351079888211149 / 4503599627370496, 8106479329266894 / 9007199254740992] \<and>
   (8106479329266894 / 9007199254740992 :: real) \<noteq> tenth * 3 ^ 2 \<and>
   8106479329266894 / 9007199254740992 \<noteq> float_mul tenth (3 ^ 2)"
  by (simp add: retry_with_eval float_eval always_failing_def catch_all_def fresh_def
      cpython_sleep_max_def tenth_def)

subsection \<open>wait_until on the clock it reads\<close>

lemma time_sleep_accepted:
  "0 \<le> d \<Longrightarrow> d \<le> sleep_max \<Longrightarrow> time_sleep sleep_max d w = (Inr (), w\<lparr>slept := slept w @ [d]\<rparr>)"
  by (simp add: time_sleep_def)

lemma wait_loop_on_now:
  "wait_loop_on tm sleep_max condition timeout interval message deadline k (w\<lparr>now := t\<rparr>) =
   wait_loop_on tm sleep_max condition timeout interval message deadline k w"
proof -
  have "wait_loop_on tm sleep_max condition timeout interval message deadline k (w\<lparr>now := t\<rparr>) =
     (if monotonic tm k < deadline then
        (case call condition (w\<lparr>now := monotonic tm k\<rparr>) of
           (Inl x, w1) \<Rightarrow> Some (Inl x, w1)
         | (Inr b, w1) \<Rightarrow>
             if b then Some (Inr (), w1)
             else
               (case time_sleep sleep_max interval w1 of
                  (Inl x, w2) \<Rightarrow> Some (Inl x, w2)
                | (Inr _, w2) \<Rightarrow>
                    wait_loop_on tm sleep_max condition timeout interval message deadline
                      (Suc k) w2))
      else Some (Inl (TimeoutError (After message timeout)), w\<lparr>now := monotonic tm k\<rparr>))"
    by (subst wait_loop_on.simps) simp
  then show ?thesis by (subst (2) wait_loop_on.simps) simp
qed

lemma wait_loop_on_step:
  assumes "monotonic tm k < deadline" and "condition (calls w) = Inr False"
    and "0 \<le> interval" and "interval \<le> sleep_max"
  shows "wait_loop_on tm sleep_max condition timeout interval message deadline k w =
         wait_loop_on tm sleep_max condition timeout interval message deadline (Suc k)
           (w\<lparr>calls := Suc (calls w), slept := slept w @ [interval]\<rparr>)"
proof -
  have e: "w\<lparr>now := monotonic tm k, calls := Suc (calls w), slept := slept w @ [interval]\<rparr> =
      (w\<lparr>calls := Suc (calls w), slept := slept w @ [interval]\<rparr>)\<lparr>now := monotonic tm k\<rparr>"
    by (rule world.equality) simp_all
  have "wait_loop_on tm sleep_max condition timeout interval message deadline k w =
        wait_loop_on tm sleep_max condition timeout interval message deadline (Suc k)
          (w\<lparr>now := monotonic tm k, calls := Suc (calls w), slept := slept w @ [interval]\<rparr>)"
    using assms(1,2)
    by (subst wait_loop_on.simps) (simp add: call_def time_sleep_accepted [OF assms(3,4)])
  then show ?thesis unfolding e by (simp only: wait_loop_on_now)
qed

lemma wait_loop_on_prefix:
  assumes "\<forall>i<n. condition (calls w + i) = Inr False"
    and "0 \<le> interval" and "interval \<le> sleep_max"
    and "\<forall>i<n. monotonic tm (k + i) < deadline"
  shows "wait_loop_on tm sleep_max condition timeout interval message deadline k w =
         wait_loop_on tm sleep_max condition timeout interval message deadline (k + n)
           (w\<lparr>slept := slept w @ replicate n interval, calls := calls w + n\<rparr>)"
  using assms
proof (induction n)
  case 0
  show ?case by simp
next
  case (Suc n)
  let ?w = "w\<lparr>slept := slept w @ replicate n interval, calls := calls w + n\<rparr>"
  have "wait_loop_on tm sleep_max condition timeout interval message deadline k w =
        wait_loop_on tm sleep_max condition timeout interval message deadline (k + n) ?w"
    using Suc by simp
  also have "\<dots> = wait_loop_on tm sleep_max condition timeout interval message deadline (Suc (k + n))
        (?w\<lparr>calls := Suc (calls ?w), slept := slept ?w @ [interval]\<rparr>)"
    using Suc.prems by (intro wait_loop_on_step) simp_all
  also have "?w\<lparr>calls := Suc (calls ?w), slept := slept ?w @ [interval]\<rparr> =
        w\<lparr>slept := slept w @ replicate (Suc n) interval, calls := calls w + Suc n\<rparr>"
    by (simp add: replicate_append_same)
  finally show ?case by simp
qed

lemma wait_until_on_never:
  assumes "0 \<le> interval" and "interval \<le> sleep_max"
    and "\<forall>k<n. condition (calls w + k) = Inr False"
    and "\<forall>k<n. monotonic tm (Suc k) < add (monotonic tm 0) timeout"
    and "\<not> monotonic tm (Suc n) < add (monotonic tm 0) timeout"
  shows "wait_until_on tm add sleep_max condition timeout interval message w =
         Some (Inl (TimeoutError (After message timeout)),
               w\<lparr>now := monotonic tm (Suc n), slept := slept w @ replicate n interval,
                 calls := calls w + n\<rparr>)"
proof -
  have "wait_until_on tm add sleep_max condition timeout interval message w =
        wait_loop_on tm sleep_max condition timeout interval message
          (add (monotonic tm 0) timeout) (1 + n)
          (w\<lparr>slept := slept w @ replicate n interval, calls := calls w + n\<rparr>)"
    unfolding wait_until_on_def using assms(1-4) by (intro wait_loop_on_prefix) simp_all
  also have "\<dots> = Some (Inl (TimeoutError (After message timeout)),
               w\<lparr>now := monotonic tm (Suc n), slept := slept w @ replicate n interval,
                 calls := calls w + n\<rparr>)"
    using assms(5) by (subst wait_loop_on.simps) simp
  finally show ?thesis .
qed

lemma steady_count:
  fixes timeout interval :: real
  assumes "0 < timeout" and "0 < interval"
    and "\<forall>k<n. real k * interval < timeout"
    and "\<not> real n * interval < timeout"
  shows "n = nat \<lceil>timeout / interval\<rceil>"
proof -
  have "n \<noteq> 0" using assms(1,4) by (cases n) auto
  then have "n - 1 < n" by simp
  with assms(3) have "real (n - 1) * interval < timeout" by blast
  then have "real (n - 1) < timeout / interval" using assms(2) by (simp add: pos_less_divide_eq)
  then have a: "of_int (int n) - 1 < timeout / interval" using \<open>n \<noteq> 0\<close> by (simp add: of_nat_diff)
  have "timeout \<le> real n * interval" using assms(4) by simp
  then have b: "timeout / interval \<le> of_int (int n)" using assms(2) by (simp add: pos_divide_le_eq)
  from a b have "\<lceil>timeout / interval\<rceil> = int n" by (rule ceiling_unique)
  then show ?thesis by simp
qed

text \<open>
  C5, as the code has it. Let the interval be one that \<^verbatim>\<open>time.sleep\<close> accepts, let the clock
  read less than the deadline at the first \<open>n\<close> tests of the loop and not at the next one,
  and let the condition be false at each of its \<open>n\<close> evaluations. Then \<^verbatim>\<open>wait_until\<close>
  raises \<^verbatim>\<open>TimeoutError\<close> after exactly these \<open>n\<close> evaluations, each followed by a
  suspension, and the clock reads at least the deadline by then. There is a first
  evaluation only if the clock is still before the deadline at the first test (\<open>n\<close> may
  be 0). On a clock that is \<open>interval\<close> further at each test, with an exact sum for the
  deadline, \<open>timeout > 0\<close> and \<open>interval > 0\<close>, the number is \<open>\<lceil>timeout / interval\<rceil>\<close>, at
  least 1: \<open>\<lfloor>timeout / interval\<rfloor> + 1\<close> unless \<open>timeout\<close> is a whole multiple of \<open>interval\<close>,
  where it is \<open>\<lfloor>timeout / interval\<rfloor>\<close>.
\<close>

theorem wait_until_on_evaluations:
  assumes "0 \<le> interval" and "interval \<le> sleep_max"
    and "\<forall>k<n. condition (calls w + k) = Inr False"
    and "\<forall>k<n. monotonic tm (Suc k) < add (monotonic tm 0) timeout"
    and "\<not> monotonic tm (Suc n) < add (monotonic tm 0) timeout"
  shows "wait_until_on tm add sleep_max condition timeout interval message w =
           Some (Inl (TimeoutError (After message timeout)),
                 w\<lparr>now := monotonic tm (Suc n), slept := slept w @ replicate n interval,
                   calls := calls w + n\<rparr>) \<and>
         (0 < timeout \<and> 0 < interval \<and>
          add (monotonic tm 0) timeout = monotonic tm 0 + timeout \<and>
          (\<forall>k. monotonic tm (Suc k) = monotonic tm 0 + real k * interval) \<longrightarrow>
            1 \<le> n \<and> n = nat \<lceil>timeout / interval\<rceil> \<and>
            n = (if timeout / interval = of_int \<lfloor>timeout / interval\<rfloor>
                 then nat \<lfloor>timeout / interval\<rfloor> else nat \<lfloor>timeout / interval\<rfloor> + 1))"
proof (intro conjI impI)
  show "wait_until_on tm add sleep_max condition timeout interval message w =
           Some (Inl (TimeoutError (After message timeout)),
                 w\<lparr>now := monotonic tm (Suc n), slept := slept w @ replicate n interval,
                   calls := calls w + n\<rparr>)"
    using wait_until_on_never [of interval sleep_max n condition w tm add timeout message] assms
    by blast
next
  assume ideal: "0 < timeout \<and> 0 < interval \<and>
          add (monotonic tm 0) timeout = monotonic tm 0 + timeout \<and>
          (\<forall>k. monotonic tm (Suc k) = monotonic tm 0 + real k * interval)"
  then have a: "\<forall>k<n. real k * interval < timeout" and b: "\<not> real n * interval < timeout"
    using assms(4,5) by auto
  from ideal have n: "n = nat \<lceil>timeout / interval\<rceil>"
    using steady_count [OF _ _ a b] by blast
  show "n = nat \<lceil>timeout / interval\<rceil>" by (rule n)
  have "0 < timeout / interval" using ideal by simp
  then have "0 < \<lceil>timeout / interval\<rceil>" by simp
  then show "1 \<le> n" unfolding n by linarith
  have "0 \<le> \<lfloor>timeout / interval\<rfloor>" using ideal by simp
  then show "n = (if timeout / interval = of_int \<lfloor>timeout / interval\<rfloor>
                 then nat \<lfloor>timeout / interval\<rfloor> else nat \<lfloor>timeout / interval\<rfloor> + 1)"
    unfolding n by (simp add: ceiling_altdef nat_add_distrib)
qed

lemmas wait_until_on_eval = wait_until_on_def wait_loop_on.simps call_def time_sleep_def
  steady_clock_def cpython_sleep_max_def

text \<open>A run with \<open>timeout = 1\<close> and \<open>interval = 3/8\<close> on the steady clock: three evaluations.\<close>

theorem wait_until_on_evaluations_witness:
  "never_true 0 = Inr False \<and> never_true 1 = Inr False \<and> never_true 2 = Inr False \<and>
   wait_until_on (steady_clock 0 (3 / 8)) float_add cpython_sleep_max never_true 1 (3 / 8)
       ''Condition not met'' fresh =
     Some (Inl (TimeoutError (After ''Condition not met'' 1)),
           \<lparr>now = 9 / 8, slept = [3 / 8, 3 / 8, 3 / 8], observed = [], calls = 3\<rparr>) \<and>
   (3::nat) = nat \<lceil>(1::real) / (3 / 8)\<rceil> \<and> (3::nat) = nat \<lfloor>(1::real) / (3 / 8)\<rfloor> + 1"
  using wait_until_on_evaluations
    [of "3 / 8" cpython_sleep_max 3 never_true fresh "steady_clock 0 (3 / 8)" float_add 1
      "''Condition not met''"]
  by (simp add: wait_until_on_eval float_eval never_true_def fresh_def)

text \<open>
  C5 as stated fails in three ways. With \<open>timeout = 1\<close> and \<open>interval = 1/2\<close> on the steady
  clock the condition is evaluated twice, at the readings 0 and 1/2, and not
  \<open>\<lfloor>1 / (1/2)\<rfloor> + 1 = 3\<close> times. With the clock at 100 and \<open>timeout = 2^-70\<close> the float sum
  for the deadline is 100 again: the condition is not evaluated at all, and the call fails
  with nothing elapsed. With an interval of \<open>10^10\<close> seconds the first suspension raises
  \<^verbatim>\<open>OverflowError\<close>, so the call does not end in a timeout.
\<close>

theorem wait_until_on_evaluations_counterexample:
  "wait_until_on (steady_clock 0 (1 / 2)) float_add cpython_sleep_max never_true 1 (1 / 2)
       ''Condition not met'' fresh =
     Some (Inl (TimeoutError (After ''Condition not met'' 1)),
           \<lparr>now = 1, slept = [1 / 2, 1 / 2], observed = [], calls = 2\<rparr>) \<and>
   (2::nat) \<noteq> nat \<lfloor>(1::real) / (1 / 2)\<rfloor> + 1 \<and>
   wait_until_on (steady_clock 100 (1 / 2)) float_add cpython_sleep_max never_true (1 / 2 ^ 70)
       (1 / 2) ''Condition not met'' fresh =
     Some (Inl (TimeoutError (After ''Condition not met'' (1 / 2 ^ 70))),
           \<lparr>now = 100, slept = [], observed = [], calls = 0\<rparr>) \<and>
   (0::real) < 1 / 2 ^ 70 \<and>
   (100::real) - monotonic (steady_clock 100 (1 / 2)) 0 < 1 / 2 ^ 70 \<and>
   wait_until_on (steady_clock 0 10000000000) float_add cpython_sleep_max never_true 1
       10000000000 ''Condition not met'' fresh =
     Some (Inl OverflowError, \<lparr>now = 0, slept = [], observed = [], calls = 1\<rparr>)"
  by (simp add: wait_until_on_eval float_eval never_true_def fresh_def)

text \<open>
  C6, as the code has it. In every run in which \<^verbatim>\<open>wait_until\<close> finds its condition false at
  each evaluation until the clock is no longer before the deadline, the \<^verbatim>\<open>TimeoutError\<close>
  carries the caller's message and the configured \<open>timeout\<close>; the time that has elapsed is
  not in it. The run depends on the monotonic clock alone: whatever the wall clock is
  adjusted to, the outcome is the same.
\<close>

theorem wait_until_on_timeout_fault:
  assumes "0 \<le> interval" and "interval \<le> sleep_max"
    and "\<forall>k<n. condition (calls w + k) = Inr False"
    and "\<forall>k<n. monotonic tm (Suc k) < add (monotonic tm 0) timeout"
    and "\<not> monotonic tm (Suc n) < add (monotonic tm 0) timeout"
  shows "wait_until_on (tm\<lparr>wallclock := adjusted\<rparr>) add sleep_max condition timeout interval
           message w =
         Some (Inl (TimeoutError (After message timeout)),
               w\<lparr>now := monotonic tm (Suc n), slept := slept w @ replicate n interval,
                 calls := calls w + n\<rparr>)"
  using wait_until_on_never [of interval sleep_max n condition w "tm\<lparr>wallclock := adjusted\<rparr>" add
      timeout message] assms
  by simp

text \<open>A run with \<open>timeout = 2\<close> and \<open>interval = 1\<close>, the wall clock stuck at 0.\<close>

theorem wait_until_on_timeout_fault_witness:
  "never_true 0 = Inr False \<and> never_true 1 = Inr False \<and>
   wait_until_on ((steady_clock 0 1)\<lparr>wallclock := (\<lambda>k. 0)\<rparr>) float_add cpython_sleep_max never_true
       2 1 ''Condition not met'' fresh =
     Some (Inl (TimeoutError (After ''Condition not met'' 2)),
           \<lparr>now = 2, slept = [1, 1], observed = [], calls = 2\<rparr>)"
  using wait_until_on_timeout_fault
    [of 1 cpython_sleep_max 2 never_true fresh "steady_clock 0 1" float_add 2 "\<lambda>k. 0"
      "''Condition not met''"]
  by (simp add: wait_until_on_eval float_eval never_true_def fresh_def)

text \<open>
  C6 as stated fails: with \<open>timeout = 1\<close> and \<open>interval = 3/4\<close> on the steady clock the call
  fails when 3/2 has elapsed, and the exception carries 1, the configured timeout.
\<close>

theorem wait_until_on_timeout_fault_counterexample:
  "wait_until_on (steady_clock 0 (3 / 4)) float_add cpython_sleep_max never_true 1 (3 / 4)
       ''Condition not met'' fresh =
     Some (Inl (TimeoutError (After ''Condition not met'' 1)),
           \<lparr>now = 3 / 2, slept = [3 / 4, 3 / 4], observed = [], calls = 2\<rparr>) \<and>
   (3 / 2 :: real) - monotonic (steady_clock 0 (3 / 4)) 0 \<noteq> 1"
  by (simp add: wait_until_on_eval float_eval never_true_def fresh_def)

end
